theory Spec2Isabelle
  imports Main "HOL-Library.Multiset" "HOL-Library.Word"
begin

unbundle bit_operations_syntax

section \<open>go-latest: upgrading the programs installed in GOBIN\<close>

text \<open>
  A shallow embedding of \<^verbatim>\<open>main.go\<close> (the version with the \<^verbatim>\<open>-j\<close> and
  \<^verbatim>\<open>-go\<close> flags, which runs one goroutine per program in an
  \<^verbatim>\<open>errgroup.Group\<close>). Go strings are byte strings and are modelled as
  \<^typ>\<open>string\<close>. Everything the program asks of its environment (the file system, the
  \<^verbatim>\<open>go\<close> command, the JSON decoder, the runtime) is a field of a record
  \<open>World\<close>; what the program prints and which commands it runs is returned as a list
  of events.
\<close>

subsection \<open>The version classifier and the semver functions it calls\<close>

text \<open>
  \<^verbatim>\<open>isSpecific\<close> calls \<^verbatim>\<open>semver.IsValid\<close> and \<^verbatim>\<open>semver.Prerelease\<close> of the
  imported package \<^verbatim>\<open>golang.org/x/mod/semver\<close>. That package is a dependency, not
  a file of this repository; the definitions below follow its parser
  (\<^verbatim>\<open>parse\<close>, \<^verbatim>\<open>parseInt\<close>, \<^verbatim>\<open>parsePrerelease\<close>, \<^verbatim>\<open>parseBuild\<close>,
  \<^verbatim>\<open>isIdentChar\<close>, \<^verbatim>\<open>isBadNum\<close>), with the index loops written as recursion
  over the rest of the string. Bytes are compared by their codes, as Go does.
\<close>

definition isDigit :: "char \<Rightarrow> bool" where
  \<comment> \<open>\<^verbatim>\<open>'0' <= c && c <= '9'\<close>\<close>
  "isDigit c = (of_char (CHR ''0'') \<le> (of_char c :: nat) \<and> (of_char c :: nat) \<le> of_char (CHR ''9''))"

definition isIdentChar :: "char \<Rightarrow> bool" where
  \<comment> \<open>\<^verbatim>\<open>'A' <= c && c <= 'Z' || 'a' <= c && c <= 'z' || '0' <= c && c <= '9' || c == '-'\<close>\<close>
  "isIdentChar c =
     (of_char (CHR ''A'') \<le> (of_char c :: nat) \<and> (of_char c :: nat) \<le> of_char (CHR ''Z'')
      \<or> of_char (CHR ''a'') \<le> (of_char c :: nat) \<and> (of_char c :: nat) \<le> of_char (CHR ''z'')
      \<or> isDigit c
      \<or> c = CHR ''-'')"

definition isBadNum :: "string \<Rightarrow> bool" where
  \<comment> \<open>\<^verbatim>\<open>i\<close> counts the leading digits; \<^verbatim>\<open>return i == len(v) && i > 1 && v[0] == '0'\<close>\<close>
  "isBadNum v =
     (let i = length (takeWhile isDigit v)
      in i = length v \<and> i > 1 \<and> (case v of [] \<Rightarrow> False | c # _ \<Rightarrow> c = CHR ''0''))"

definition parseInt :: "string \<Rightarrow> (string \<times> string) option" where
  \<comment> \<open>\<^verbatim>\<open>(t, rest, ok)\<close>; \<open>None\<close> is \<^verbatim>\<open>ok == false\<close>\<close>
  "parseInt v =
     (case v of
        [] \<Rightarrow> None
      | c # _ \<Rightarrow>
          if \<not> isDigit c then None
          else let i = length (takeWhile isDigit v)
               in if c = CHR ''0'' \<and> i \<noteq> 1 then None
                  else Some (take i v, drop i v))"

text \<open>
  The loop of \<^verbatim>\<open>parsePrerelease\<close>: \<open>acc\<close> is \<^verbatim>\<open>v[:i]\<close>, \<open>cur\<close> is
  \<^verbatim>\<open>v[start:i]\<close> (so \<^verbatim>\<open>start == i\<close> is \<open>cur = []\<close>), the third argument is
  \<^verbatim>\<open>v[i:]\<close>.
\<close>

fun prereleaseLoop :: "string \<Rightarrow> string \<Rightarrow> string \<Rightarrow> (string \<times> string) option" where
  "prereleaseLoop acc cur [] =
     (if cur = [] \<or> isBadNum cur then None else Some (acc, []))"
| "prereleaseLoop acc cur (c # cs) =
     (if c = CHR ''+'' then
        (if cur = [] \<or> isBadNum cur then None else Some (acc, c # cs))
      else if \<not> isIdentChar c \<and> c \<noteq> CHR ''.'' then None
      else if c = CHR ''.'' then
        (if cur = [] \<or> isBadNum cur then None else prereleaseLoop (acc @ [c]) [] cs)
      else prereleaseLoop (acc @ [c]) (cur @ [c]) cs)"

definition parsePrerelease :: "string \<Rightarrow> (string \<times> string) option" where
  "parsePrerelease v =
     (case v of
        [] \<Rightarrow> None
      | c # cs \<Rightarrow> if c \<noteq> CHR ''-'' then None else prereleaseLoop [c] [] cs)"

fun buildLoop :: "string \<Rightarrow> string \<Rightarrow> string \<Rightarrow> (string \<times> string) option" where
  "buildLoop acc cur [] = (if cur = [] then None else Some (acc, []))"
| "buildLoop acc cur (c # cs) =
     (if \<not> isIdentChar c \<and> c \<noteq> CHR ''.'' then None
      else if c = CHR ''.'' then
        (if cur = [] then None else buildLoop (acc @ [c]) [] cs)
      else buildLoop (acc @ [c]) (cur @ [c]) cs)"

definition parseBuild :: "string \<Rightarrow> (string \<times> string) option" where
  "parseBuild v =
     (case v of
        [] \<Rightarrow> None
      | c # cs \<Rightarrow> if c \<noteq> CHR ''+'' then None else buildLoop [c] [] cs)"

record parsed =
  major :: string
  minor :: string
  patch :: string
  short :: string
  prerelease :: string
  build :: string

definition parseTail :: "parsed \<Rightarrow> string \<Rightarrow> parsed option" where
  \<comment> \<open>the end of \<^verbatim>\<open>parse\<close>, after the patch number: an optional pre-release, an
      optional build, then nothing\<close>
  "parseTail p v =
     (case (if (case v of [] \<Rightarrow> False | c # _ \<Rightarrow> c = CHR ''-'')
            then (case parsePrerelease v of
                    None \<Rightarrow> None
                  | Some (t, rest) \<Rightarrow> Some (p\<lparr>prerelease := t\<rparr>, rest))
            else Some (p, v)) of
        None \<Rightarrow> None
      | Some (p1, v1) \<Rightarrow>
          (case (if (case v1 of [] \<Rightarrow> False | c # _ \<Rightarrow> c = CHR ''+'')
                 then (case parseBuild v1 of
                         None \<Rightarrow> None
                       | Some (t, rest) \<Rightarrow> Some (p1\<lparr>build := t\<rparr>, rest))
                 else Some (p1, v1)) of
             None \<Rightarrow> None
           | Some (p2, v2) \<Rightarrow> if v2 \<noteq> [] then None else Some p2))"

definition parse :: "string \<Rightarrow> parsed option" where
  "parse v =
     (case v of
        [] \<Rightarrow> None
      | c # v0 \<Rightarrow>
          if c \<noteq> CHR ''v'' then None
          else
            (case parseInt v0 of
               None \<Rightarrow> None
             | Some (ma, v1) \<Rightarrow>
                 (case v1 of
                    [] \<Rightarrow> Some \<lparr>major = ma, minor = ''0'', patch = ''0'', short = ''.0.0'',
                               prerelease = [], build = []\<rparr>
                  | d1 # v1' \<Rightarrow>
                      if d1 \<noteq> CHR ''.'' then None
                      else
                        (case parseInt v1' of
                           None \<Rightarrow> None
                         | Some (mi, v2) \<Rightarrow>
                             (case v2 of
                                [] \<Rightarrow> Some \<lparr>major = ma, minor = mi, patch = ''0'', short = ''.0'',
                                           prerelease = [], build = []\<rparr>
                              | d2 # v2' \<Rightarrow>
                                  if d2 \<noteq> CHR ''.'' then None
                                  else
                                    (case parseInt v2' of
                                       None \<Rightarrow> None
                                     | Some (pa, v3) \<Rightarrow>
                                         parseTail \<lparr>major = ma, minor = mi, patch = pa,
                                                    short = [], prerelease = [], build = []\<rparr>
                                                   v3))))))"

definition IsValid :: "string \<Rightarrow> bool" where
  \<comment> \<open>\<^verbatim>\<open>_, ok := parse(v); return ok\<close>\<close>
  "IsValid v = (case parse v of None \<Rightarrow> False | Some _ \<Rightarrow> True)"

definition Prerelease :: "string \<Rightarrow> string" where
  \<comment> \<open>\<^verbatim>\<open>pv, ok := parse(v); if !ok { return "" }; return pv.prerelease\<close>\<close>
  "Prerelease v = (case parse v of None \<Rightarrow> [] | Some pv \<Rightarrow> prerelease pv)"

definition isSpecific :: "string \<Rightarrow> bool" where
  \<comment> \<open>\<^verbatim>\<open>isSpecific\<close>, main.go: a revision installed from a local repository
      or at a specific SHA\<close>
  "isSpecific v =
     (if v = ''(devel)'' then True
      else if IsValid v \<and> Prerelease v \<noteq> [] then True
      else False)"

subsection \<open>Errors\<close>

text \<open>
  The error values the program handles: the sentinel \<^verbatim>\<open>context.Canceled\<close>, an
  error that is only a message (\<^verbatim>\<open>errors.New\<close>, \<^verbatim>\<open>fmt.Errorf\<close> without
  \<^verbatim>\<open>%w\<close>, and the errors of the operating system), and the error that
  \<^verbatim>\<open>fmt.Errorf\<close> builds for a \<^verbatim>\<open>%w\<close> verb, which keeps the error it wraps.
\<close>

datatype error =
  Canceled
| ErrorString string
| WrapError string error

fun Error :: "error \<Rightarrow> string" where
  "Error Canceled = ''context canceled''"
| "Error (ErrorString s) = s"
| "Error (WrapError msg e) = msg"

fun errors_Is :: "error \<Rightarrow> error \<Rightarrow> bool" where
  \<comment> \<open>\<^verbatim>\<open>errors.Is\<close>: the error or one it wraps is the target\<close>
  "errors_Is (WrapError msg e) target = (WrapError msg e = target \<or> errors_Is e target)"
| "errors_Is e target = (e = target)"

subsection \<open>The environment\<close>

record Module =
  ModulePath :: string
  Version :: string

record BuildInfo =
  GoVersion :: string
  Path :: string
  Main :: Module

record FileInfo =
  Name :: string
  Mode :: "32 word"

text \<open>
  \<open>CombinedOutput w f args\<close> is what \<^verbatim>\<open>exec.CommandContext(ctx, args...).CombinedOutput()\<close>
  returns in the goroutine that handles the file \<open>f\<close>: the output and the error. The
  result is given per goroutine because one command line can end differently in two of
  them; a cancelled context shows here as an error. \<open>Unmarshal\<close> is
  \<^verbatim>\<open>json.Unmarshal\<close> into \<^verbatim>\<open>struct{ Version string }\<close>.
\<close>

record World =
  Getenv :: "string \<Rightarrow> string"
  Join :: "string list \<Rightarrow> string"
  ReadDir :: "string \<Rightarrow> error + FileInfo list"
  ReadFile :: "string \<Rightarrow> error + BuildInfo"
  CombinedOutput :: "string \<Rightarrow> string list \<Rightarrow> string \<times> error option"
  Unmarshal :: "string \<Rightarrow> error + string"
  runtime_Version :: string
  NumCPU :: int
  ReadBuildInfo :: "BuildInfo option"
  MkdirTemp :: "error + string"
  Chdir :: "string \<Rightarrow> error option"

text \<open>What a goroutine prints and runs, one constructor for each place of the source.\<close>

datatype event =
  PrintSkip string string
| PrintError error
| PrintAlreadyLatest string string
| PrintUpgrade string string string
| Exec "string list"
| PrintVersion string
| PrintFatal string

fun render :: "event \<Rightarrow> string" where
  \<comment> \<open>the text written to standard output\<close>
  "render (PrintSkip p v) = p @ '' '' @ v @ '' skip'' @ [CHR ''\<newline>'']"
| "render (PrintError err) = Error err @ [CHR ''\<newline>'']"
| "render (PrintAlreadyLatest p v) = p @ '' '' @ v @ '' already latest'' @ [CHR ''\<newline>'']"
| "render (PrintUpgrade p v t) = p @ '' '' @ v @ '' -> '' @ t @ [CHR ''\<newline>'']"
| "render (Exec args) = []"
| "render (PrintVersion v) = v @ [CHR ''\<newline>'']"
| "render (PrintFatal msg) = msg"

subsection \<open>Finding the programs\<close>

definition gobin :: "World \<Rightarrow> string" where
  "gobin w =
     (let gobin = Getenv w ''GOBIN''
      in if gobin \<noteq> [] then gobin
         else let home = Getenv w ''HOME''
              in if home \<noteq> [] then Join w [home, ''go'', ''bin''] else [])"

definition Perm :: "32 word \<Rightarrow> 32 word" where
  \<comment> \<open>\<^verbatim>\<open>fs.FileMode.Perm\<close>: \<^verbatim>\<open>m & ModePerm\<close>, \<^verbatim>\<open>ModePerm = 0777\<close>\<close>
  "Perm m = m AND 511"

definition isExecutable :: "FileInfo \<Rightarrow> bool" where
  \<comment> \<open>\<^verbatim>\<open>fi.Mode().Perm()&0111 != 0\<close>\<close>
  "isExecutable fi = (Perm (Mode fi) AND 73 \<noteq> 0)"

definition listPrograms :: "World \<Rightarrow> string \<Rightarrow> error + string list" where
  "listPrograms w dir =
     (case ReadDir w dir of
        Inl err \<Rightarrow> Inl err
      | Inr files \<Rightarrow> Inr (map (\<lambda>fi. Join w [dir, Name fi]) (filter isExecutable files)))"

subsection \<open>One program\<close>

definition listCmd :: "string \<Rightarrow> string list" where
  "listCmd pkg = [''go'', ''list'', ''-m'', ''-json'', pkg @ ''@latest'']"

definition installCmd :: "string \<Rightarrow> string list" where
  "installCmd path = [''go'', ''install'', path @ ''@latest'']"

definition latest :: "World \<Rightarrow> string \<Rightarrow> string \<Rightarrow> event list \<times> (error + string)" where
  \<comment> \<open>\<^verbatim>\<open>latest(ctx, pkg)\<close>, run in the goroutine of the file \<open>f\<close>\<close>
  "latest w f pkg =
     (case CombinedOutput w f (listCmd pkg) of
        (out, Some err) \<Rightarrow>
          ([Exec (listCmd pkg)],
           Inl (WrapError (''go list ('' @ Error err @ ''):'' @ [CHR ''\<newline>''] @ out) err))
      | (out, None) \<Rightarrow>
          (case Unmarshal w out of
             Inl err \<Rightarrow> ([Exec (listCmd pkg)], Inl (ErrorString (''json unmarshal: '' @ Error err)))
           | Inr version \<Rightarrow> ([Exec (listCmd pkg)], Inr version)))"

definition upgrade ::
  "World \<Rightarrow> bool \<Rightarrow> string \<Rightarrow> BuildInfo \<Rightarrow> event list \<Rightarrow> string \<Rightarrow> event list \<times> error option" where
  \<comment> \<open>the closure of \<^verbatim>\<open>installer\<close> from \<^verbatim>\<open>goUpgrade := ...\<close> to its end, where the
      branches of the error check on \<^verbatim>\<open>latest\<close> meet; \<open>evs\<close> is what the goroutine
      has printed and run so far\<close>
  "upgrade w latestGo f info evs target =
     (let goUpgrade = (latestGo \<and> runtime_Version w \<noteq> GoVersion info);
          modUpgrade = (target \<noteq> Version (Main info))
      in if \<not> goUpgrade \<and> \<not> modUpgrade then
           (evs @ [PrintAlreadyLatest (Path info) (Version (Main info))], None)
         else
           (case CombinedOutput w f (installCmd (Path info)) of
              (out, Some err) \<Rightarrow>
                (evs @ [PrintUpgrade (Path info) (Version (Main info)) target,
                        Exec (installCmd (Path info))],
                 Some (ErrorString (''go install ('' @ Error err @ ''):'' @ [CHR ''\<newline>''] @ out)))
            | (out, None) \<Rightarrow>
                (evs @ [PrintUpgrade (Path info) (Version (Main info)) target,
                        Exec (installCmd (Path info))],
                 None)))"

definition task :: "World \<Rightarrow> bool \<Rightarrow> string \<Rightarrow> event list \<times> error option" where
  \<comment> \<open>the closure passed to \<^verbatim>\<open>eg.Go\<close> for the file \<open>f\<close>\<close>
  "task w latestGo f =
     (case ReadFile w f of
        Inl err \<Rightarrow> ([], Some err)
      | Inr info \<Rightarrow>
          if isSpecific (Version (Main info)) then
            ([PrintSkip (Path info) (Version (Main info))], None)
          else
            (case latest w f (ModulePath (Main info)) of
               (evs, Inl err) \<Rightarrow>
                 if errors_Is err Canceled then (evs, None)
                 else upgrade w latestGo f info (evs @ [PrintError err]) ''?''
             | (evs, Inr target) \<Rightarrow> upgrade w latestGo f info evs target))"

subsection \<open>The group of goroutines\<close>

text \<open>
  \<^verbatim>\<open>errgroup.Group\<close> of \<^verbatim>\<open>golang.org/x/sync/errgroup\<close>, a dependency like semver:
  \<open>sem\<close> is the capacity of the semaphore channel (\<open>None\<close>: no channel, no limit) and
  \<open>group_err\<close> (the field \<^verbatim>\<open>err\<close>) the error that \<^verbatim>\<open>errOnce\<close> has stored. The group is the zero value, made
  without a context, so an error in one goroutine cancels nothing.
\<close>

record Group =
  sem :: "nat option"
  group_err :: "error option"

definition zeroGroup :: Group where
  "zeroGroup = \<lparr>sem = None, group_err = None\<rparr>"

definition SetLimit :: "Group \<Rightarrow> int \<Rightarrow> Group" where
  \<comment> \<open>\<^verbatim>\<open>if n < 0 { g.sem = nil; return }; g.sem = make(chan token, n)\<close>\<close>
  "SetLimit g n = (if n < 0 then g\<lparr>sem := None\<rparr> else g\<lparr>sem := Some (nat n)\<rparr>)"

definition done_with :: "Group \<Rightarrow> error option \<Rightarrow> Group" where
  \<comment> \<open>the end of a goroutine started by \<^verbatim>\<open>Go\<close>:
      \<^verbatim>\<open>if err := f(); err != nil { g.errOnce.Do(func() { g.err = err }) }\<close>\<close>
  "done_with g r =
     (case r of
        None \<Rightarrow> g
      | Some e \<Rightarrow> (case group_err g of None \<Rightarrow> g\<lparr>group_err := Some e\<rparr> | Some _ \<Rightarrow> g))"

definition Wait :: "Group \<Rightarrow> error option" where
  "Wait g = group_err g"

subsection \<open>The run\<close>

text \<open>
  The goroutines finish in an order that the scheduler chooses. \<open>order\<close> is that
  order, a list of the program files; it is meaningful when it is a permutation of the
  programs found. The result is \<open>None\<close> when \<^verbatim>\<open>eg.Go\<close> blocks for ever (a limit of
  zero admits no goroutine); otherwise it holds what each goroutine printed, ran and
  returned, in the order of the programs, and the error that \<^verbatim>\<open>eg.Wait\<close> returns.
\<close>

definition installer ::
  "World \<Rightarrow> string list \<Rightarrow> int \<Rightarrow> bool \<Rightarrow> ((event list \<times> error option) list \<times> error option) option" where
  "installer w order nProcs latestGo =
     (let dir = gobin w
      in if dir = [] then Some ([], Some (ErrorString ''GOBIN not found''))
         else
           (case listPrograms w dir of
              Inl err \<Rightarrow> Some ([], Some err)
            | Inr progs \<Rightarrow>
                (let eg = SetLimit zeroGroup nProcs
                 in if sem eg = Some 0 \<and> progs \<noteq> [] then None
                    else Some (map (task w latestGo) progs,
                               Wait (fold (\<lambda>f g. done_with g (snd (task w latestGo f))) order eg)))))"


definition limit :: "World \<Rightarrow> int \<Rightarrow> int" where
  \<comment> \<open>\<^verbatim>\<open>if *nProcs == 0 { *nProcs = runtime.NumCPU() }\<close>\<close>
  "limit w n = (if n = 0 then NumCPU w else n)"





subsection \<open>Reading a goroutine's events\<close>

fun commands :: "event list \<Rightarrow> string list list" where
  \<comment> \<open>the command lines that were run, in order\<close>
  "commands [] = []"
| "commands (Exec args # evs) = args # commands evs"
| "commands (_ # evs) = commands evs"

fun isStatus :: "event \<Rightarrow> bool" where
  \<comment> \<open>the three lines that report what was decided for a program\<close>
  "isStatus (PrintSkip p v) = True"
| "isStatus (PrintAlreadyLatest p v) = True"
| "isStatus (PrintUpgrade p v t) = True"
| "isStatus _ = False"

subsection \<open>An example environment\<close>

text \<open>
  A GOBIN that holds one program, \<^verbatim>\<open>gopls\<close>, and a file that is not executable.
  The parameters are the build information of the program, what \<^verbatim>\<open>go list\<close>
  returns and what \<^verbatim>\<open>go install\<close> returns. The example decoder takes the whole
  output of \<^verbatim>\<open>go list\<close> for the version.
\<close>

definition gopls :: "string \<Rightarrow> string \<Rightarrow> BuildInfo" where
  "gopls gv v =
     \<lparr>GoVersion = gv, Path = ''golang.org/x/tools/gopls'',
      Main = \<lparr>ModulePath = ''golang.org/x/tools/gopls'', Version = v\<rparr>\<rparr>"

definition exampleWorld ::
  "BuildInfo \<Rightarrow> string \<times> error option \<Rightarrow> string \<times> error option \<Rightarrow> World" where
  "exampleWorld info listed installed =
     \<lparr>Getenv = (\<lambda>k. if k = ''GOBIN'' then ''/gobin'' else []),
      Join = (\<lambda>xs. case xs of [] \<Rightarrow> [] | x # ys \<Rightarrow> foldl (\<lambda>a b. a @ ''/'' @ b) x ys),
      ReadDir = (\<lambda>dir. Inr [\<lparr>Name = ''gopls'', Mode = 493\<rparr>, \<lparr>Name = ''notes.txt'', Mode = 420\<rparr>]),
      ReadFile = (\<lambda>f. Inr info),
      CombinedOutput =
        (\<lambda>f args. if args = listCmd (ModulePath (Main info)) then listed else installed),
      Unmarshal =
        (\<lambda>out. if out = [] then Inl (ErrorString ''unexpected end of JSON input'') else Inr out),
      runtime_Version = ''go1.21.0'',
      NumCPU = 4,
      ReadBuildInfo = None,
      MkdirTemp = Inr ''/tmp/1'',
      Chdir = (\<lambda>dir. None)\<rparr>"

text \<open>
  A GOBIN with two programs: the install of \<^verbatim>\<open>dlv\<close> fails, the one of
  \<^verbatim>\<open>gopls\<close> succeeds.
\<close>

definition dlv :: BuildInfo where
  "dlv =
     \<lparr>GoVersion = ''go1.21.0'', Path = ''github.com/go-delve/delve/cmd/dlv'',
      Main = \<lparr>ModulePath = ''github.com/go-delve/delve'', Version = ''v1.21.0''\<rparr>\<rparr>"

definition twoPrograms :: World where
  "twoPrograms =
     \<lparr>Getenv = (\<lambda>k. if k = ''GOBIN'' then ''/gobin'' else []),
      Join = (\<lambda>xs. case xs of [] \<Rightarrow> [] | x # ys \<Rightarrow> foldl (\<lambda>a b. a @ ''/'' @ b) x ys),
      ReadDir = (\<lambda>dir. Inr [\<lparr>Name = ''dlv'', Mode = 493\<rparr>, \<lparr>Name = ''gopls'', Mode = 493\<rparr>]),
      ReadFile = (\<lambda>f. if f = ''/gobin/dlv'' then Inr dlv else Inr (gopls ''go1.21.0'' ''v0.14.1'')),
      CombinedOutput =
        (\<lambda>f args.
           if f = ''/gobin/dlv'' then
             (if args = listCmd ''github.com/go-delve/delve'' then (''v1.22.0'', None)
              else (''build failed'', Some (ErrorString ''exit status 1'')))
           else
             (if args = listCmd ''golang.org/x/tools/gopls'' then (''v0.14.2'', None)
              else ([], None))),
      Unmarshal =
        (\<lambda>out. if out = [] then Inl (ErrorString ''unexpected end of JSON input'') else Inr out),
      runtime_Version = ''go1.21.0'',
      NumCPU = 4,
      ReadBuildInfo = None,
      MkdirTemp = Inr ''/tmp/1'',
      Chdir = (\<lambda>dir. None)\<rparr>"

text \<open>
  The query for the latest version of the program in the file \<open>f\<close> ended with an
  error that is \<^verbatim>\<open>context.Canceled\<close> for \<^verbatim>\<open>errors.Is\<close>. A query that ends with
  any other error, whatever made it fail, is not in this case.
\<close>

definition resolveCancelled :: "World \<Rightarrow> string \<Rightarrow> bool" where
  "resolveCancelled w f =
     (case ReadFile w f of
        Inl _ \<Rightarrow> False
      | Inr info \<Rightarrow>
          \<not> isSpecific (Version (Main info))
          \<and> (case snd (latest w f (ModulePath (Main info))) of
                Inl e \<Rightarrow> errors_Is e Canceled
              | Inr _ \<Rightarrow> False))"

text \<open>
  The lines that report an error: the one a goroutine prints for a failed query and
  the one \<^verbatim>\<open>main\<close> prints for the error of the run.
\<close>

fun isErrorMessage :: "event \<Rightarrow> bool" where
  "isErrorMessage (PrintError e) = True"
| "isErrorMessage (PrintFatal msg) = True"
| "isErrorMessage _ = False"



section \<open>Properties\<close>

subsection \<open>The version classifier\<close>

text \<open>
  C3. For every string \<open>v\<close>, \<open>isSpecific v\<close> holds exactly when \<open>v\<close> is the
  local-build sentinel \<^verbatim>\<open>(devel)\<close> or a valid semantic version with a non-empty
  pre-release; it is false for every other string. It is a total function. On the
  sentinel and on \<^verbatim>\<open>v1.2.3-0.20210101000000-abcdef123456\<close> it is true; on
  \<^verbatim>\<open>v1.2.3\<close> and \<^verbatim>\<open>not-a-version\<close> it is false.
\<close>

theorem isSpecific_iff:
  "(isSpecific v \<longleftrightarrow> v = ''(devel)'' \<or> (IsValid v \<and> Prerelease v \<noteq> []))
   \<and> isSpecific ''(devel)''
   \<and> isSpecific ''v1.2.3-0.20210101000000-abcdef123456''
   \<and> \<not> isSpecific ''v1.2.3''
   \<and> \<not> isSpecific ''not-a-version''"
proof -
  have general: "isSpecific v \<longleftrightarrow> v = ''(devel)'' \<or> (IsValid v \<and> Prerelease v \<noteq> [])"
    by (simp add: isSpecific_def)
  have local: "isSpecific ''(devel)''"
    by (simp add: isSpecific_def)
  have sha: "isSpecific ''v1.2.3-0.20210101000000-abcdef123456''"
    by code_simp
  have clean: "\<not> isSpecific ''v1.2.3''"
    by code_simp
  have junk: "\<not> isSpecific ''not-a-version''"
    by code_simp
  from general local sha clean junk show ?thesis by blast
qed

subsection \<open>What one goroutine does\<close>

lemma latest_events: "fst (latest w f pkg) = [Exec (listCmd pkg)]"
  by (simp add: latest_def split: prod.splits option.splits sum.splits)

lemma commands_append: "commands (xs @ ys) = commands xs @ commands ys"
  by (induction xs rule: commands.induct) simp_all

lemma upgrade_already_latest:
  "target = Version (Main info) \<Longrightarrow> \<not> (latestGo \<and> runtime_Version w \<noteq> GoVersion info) \<Longrightarrow>
   upgrade w latestGo f info evs target =
     (evs @ [PrintAlreadyLatest (Path info) (Version (Main info))], None)"
  by (simp add: upgrade_def)

lemma upgrade_install:
  "target \<noteq> Version (Main info) \<or> (latestGo \<and> runtime_Version w \<noteq> GoVersion info) \<Longrightarrow>
   upgrade w latestGo f info evs target =
     (evs @ [PrintUpgrade (Path info) (Version (Main info)) target, Exec (installCmd (Path info))],
      case snd (CombinedOutput w f (installCmd (Path info))) of
        None \<Rightarrow> None
      | Some e \<Rightarrow> Some (ErrorString (''go install ('' @ Error e @ ''):'' @ [CHR ''\<newline>'']
                                      @ fst (CombinedOutput w f (installCmd (Path info))))))"
  by (auto simp: upgrade_def Let_def split: prod.splits option.splits)

lemma task_resolved:
  assumes "ReadFile w f = Inr info" "\<not> isSpecific (Version (Main info))"
    and "snd (latest w f (ModulePath (Main info))) = Inr target"
  shows "task w latestGo f =
           upgrade w latestGo f info [Exec (listCmd (ModulePath (Main info)))] target"
proof -
  obtain evs where l: "latest w f (ModulePath (Main info)) = (evs, Inr target)"
    using assms(3) by (cases "latest w f (ModulePath (Main info))") simp
  with latest_events [of w f "ModulePath (Main info)"]
  have "evs = [Exec (listCmd (ModulePath (Main info)))]" by simp
  with l assms(1,2) show ?thesis by (simp add: task_def)
qed

lemma task_resolve_failed:
  assumes "ReadFile w f = Inr info" "\<not> isSpecific (Version (Main info))"
    and "snd (latest w f (ModulePath (Main info))) = Inl e" "\<not> errors_Is e Canceled"
  shows "task w latestGo f =
           upgrade w latestGo f info [Exec (listCmd (ModulePath (Main info))), PrintError e] ''?''"
proof -
  obtain evs where l: "latest w f (ModulePath (Main info)) = (evs, Inl e)"
    using assms(3) by (cases "latest w f (ModulePath (Main info))") simp
  with latest_events [of w f "ModulePath (Main info)"]
  have "evs = [Exec (listCmd (ModulePath (Main info)))]" by simp
  with l assms(1,2,4) show ?thesis by (simp add: task_def)
qed

lemma task_resolve_cancelled:
  assumes "ReadFile w f = Inr info" "\<not> isSpecific (Version (Main info))"
    and "snd (latest w f (ModulePath (Main info))) = Inl e" "errors_Is e Canceled"
  shows "task w latestGo f = ([Exec (listCmd (ModulePath (Main info)))], None)"
proof -
  obtain evs where l: "latest w f (ModulePath (Main info)) = (evs, Inl e)"
    using assms(3) by (cases "latest w f (ModulePath (Main info))") simp
  with latest_events [of w f "ModulePath (Main info)"]
  have "evs = [Exec (listCmd (ModulePath (Main info)))]" by simp
  with l assms(1,2,4) show ?thesis by (simp add: task_def)
qed

lemma task_pinned:
  assumes "ReadFile w f = Inr info" "isSpecific (Version (Main info))"
  shows "task w latestGo f = ([PrintSkip (Path info) (Version (Main info))], None)"
  using assms by (simp add: task_def)

lemma task_local:
  assumes "ReadFile w' f = ReadFile w f" and "CombinedOutput w' f = CombinedOutput w f"
    and "Unmarshal w' = Unmarshal w" and "runtime_Version w' = runtime_Version w"
  shows "task w' latestGo f = task w latestGo f"
proof -
  have l: "latest w' f pkg = latest w f pkg" for pkg
    unfolding latest_def assms(2,3) ..
  have u: "upgrade w' latestGo f info evs target = upgrade w latestGo f info evs target"
    for info evs target
    unfolding upgrade_def assms(2,4) ..
  show ?thesis
    unfolding task_def assms(1) l u ..
qed

lemma status_upgrade:
  "length (filter isStatus (fst (upgrade w latestGo f info evs target)))
     = Suc (length (filter isStatus evs))"
  by (simp add: upgrade_def Let_def split: prod.splits option.splits)

lemma task_status_lines:
  "case ReadFile w f of
     Inl e \<Rightarrow> task w latestGo f = ([], Some e)
   | Inr info \<Rightarrow>
       length (filter isStatus (fst (task w latestGo f))) = (if resolveCancelled w f then 0 else 1)"
proof (cases "ReadFile w f")
  case (Inl e)
  then show ?thesis by (simp add: task_def)
next
  case (Inr info)
  show ?thesis
  proof (cases "isSpecific (Version (Main info))")
    case True
    with Inr show ?thesis by (simp add: task_pinned resolveCancelled_def)
  next
    case False
    show ?thesis
    proof (cases "snd (latest w f (ModulePath (Main info)))")
      case r: (Inr target)
      from task_resolved [OF Inr False r, of latestGo]
        status_upgrade [of w latestGo f info "[Exec (listCmd (ModulePath (Main info)))]" target]
      show ?thesis using Inr False r by (simp add: resolveCancelled_def)
    next
      case l: (Inl e)
      show ?thesis
      proof (cases "errors_Is e Canceled")
        case True
        from task_resolve_cancelled [OF Inr False l True, of latestGo]
        show ?thesis using Inr False l True by (simp add: resolveCancelled_def)
      next
        case c: False
        from task_resolve_failed [OF Inr False l c, of latestGo]
          status_upgrade [of w latestGo f info
            "[Exec (listCmd (ModulePath (Main info))), PrintError e]" "''?''"]
        show ?thesis using Inr False l c by (simp add: resolveCancelled_def)
      qed
    qed
  qed
qed

text \<open>
  C8. For every program whose current version is classified as pinned, the goroutine
  prints the skip line and returns at once: it runs no command at all, so neither the
  latest-version query nor the install is attempted.
\<close>

theorem pinned_is_skipped:
  assumes "ReadFile w f = Inr info" and "isSpecific (Version (Main info))"
  shows "task w latestGo f = ([PrintSkip (Path info) (Version (Main info))], None)
         \<and> commands (fst (task w latestGo f)) = []"
  using assms by (simp add: task_pinned)

theorem pinned_is_skipped_witness:
  "task (exampleWorld (gopls ''go1.21.0'' ''v0.0.0-20210101000000-abcdef123456'') ([], None) ([], None))
        True ''/gobin/gopls''
     = ([PrintSkip ''golang.org/x/tools/gopls'' ''v0.0.0-20210101000000-abcdef123456''], None)
   \<and> commands (fst (task (exampleWorld (gopls ''go1.21.0'' ''v0.0.0-20210101000000-abcdef123456'')
                                        ([], None) ([], None))
                          True ''/gobin/gopls'')) = []"
proof -
  let ?info = "gopls ''go1.21.0'' ''v0.0.0-20210101000000-abcdef123456''"
  let ?w = "exampleWorld ?info ([], None) ([], None)"
  have r: "ReadFile ?w ''/gobin/gopls'' = Inr ?info"
    by (simp add: exampleWorld_def)
  have "isSpecific ''v0.0.0-20210101000000-abcdef123456''"
    by code_simp
  then have p: "isSpecific (Version (Main ?info))"
    by (simp add: gopls_def)
  from pinned_is_skipped [OF r p, of True] show ?thesis
    by (simp add: gopls_def)
qed

text \<open>
  C4. For every program that is not pinned and whose latest version was resolved, the
  goroutine reports "already latest" and runs no install exactly when the current
  version equals the target and either toolchain upgrades are not requested or the
  program was built with the running toolchain. In every other case it reports the
  upgrade and runs \<^verbatim>\<open>go install path@latest\<close>; this includes the case of an equal
  module version and a different toolchain.
\<close>

theorem already_latest_iff:
  assumes "ReadFile w f = Inr info" and "\<not> isSpecific (Version (Main info))"
    and "snd (latest w f (ModulePath (Main info))) = Inr target"
  shows "fst (task w latestGo f) =
           (if Version (Main info) = target \<and> (\<not> latestGo \<or> GoVersion info = runtime_Version w)
            then [Exec (listCmd (ModulePath (Main info))),
                  PrintAlreadyLatest (Path info) (Version (Main info))]
            else [Exec (listCmd (ModulePath (Main info))),
                  PrintUpgrade (Path info) (Version (Main info)) target,
                  Exec [''go'', ''install'', Path info @ ''@latest'']])
         \<and> ([''go'', ''install'', Path info @ ''@latest''] \<in> set (commands (fst (task w latestGo f)))
              \<longleftrightarrow> \<not> (Version (Main info) = target
                      \<and> (\<not> latestGo \<or> GoVersion info = runtime_Version w)))"
proof (cases "Version (Main info) = target \<and> (\<not> latestGo \<or> GoVersion info = runtime_Version w)")
  case True
  then have "task w latestGo f =
      ([Exec (listCmd (ModulePath (Main info))),
        PrintAlreadyLatest (Path info) (Version (Main info))], None)"
    using task_resolved [OF assms, of latestGo]
      upgrade_already_latest [of target info latestGo w f "[Exec (listCmd (ModulePath (Main info)))]"]
    by auto
  with True show ?thesis by (simp add: listCmd_def)
next
  case False
  then have "target \<noteq> Version (Main info) \<or> (latestGo \<and> runtime_Version w \<noteq> GoVersion info)"
    by auto
  from upgrade_install [OF this, of f "[Exec (listCmd (ModulePath (Main info)))]"]
  have "fst (task w latestGo f) =
      [Exec (listCmd (ModulePath (Main info))),
       PrintUpgrade (Path info) (Version (Main info)) target,
       Exec (installCmd (Path info))]"
    using task_resolved [OF assms, of latestGo] by simp
  with False show ?thesis by (simp add: installCmd_def)
qed

theorem already_latest_iff_witness:
  "fst (task (exampleWorld (gopls ''go1.20.0'' ''v1.0.0'') (''v1.0.0'', None) ([], None))
             True ''/gobin/gopls'')
     = [Exec (listCmd ''golang.org/x/tools/gopls''),
        PrintUpgrade ''golang.org/x/tools/gopls'' ''v1.0.0'' ''v1.0.0'',
        Exec [''go'', ''install'', ''golang.org/x/tools/gopls@latest'']]
   \<and> fst (task (exampleWorld (gopls ''go1.20.0'' ''v1.0.0'') (''v1.0.0'', None) ([], None))
               False ''/gobin/gopls'')
     = [Exec (listCmd ''golang.org/x/tools/gopls''),
        PrintAlreadyLatest ''golang.org/x/tools/gopls'' ''v1.0.0'']"
proof -
  let ?info = "gopls ''go1.20.0'' ''v1.0.0''"
  let ?w = "exampleWorld ?info (''v1.0.0'', None) ([], None)"
  have r: "ReadFile ?w ''/gobin/gopls'' = Inr ?info"
    by (simp add: exampleWorld_def)
  have "\<not> isSpecific ''v1.0.0''"
    by code_simp
  then have p: "\<not> isSpecific (Version (Main ?info))"
    by (simp add: gopls_def)
  have l: "snd (latest ?w ''/gobin/gopls'' (ModulePath (Main ?info))) = Inr ''v1.0.0''"
    by (simp add: latest_def exampleWorld_def gopls_def)
  from already_latest_iff [OF r p l, of True] already_latest_iff [OF r p l, of False]
  show ?thesis
    by (simp add: gopls_def exampleWorld_def)
qed

lemma commands_upgrade:
  "commands (fst (upgrade w latestGo f info evs target)) = commands evs
   \<or> commands (fst (upgrade w latestGo f info evs target)) = commands evs @ [installCmd (Path info)]"
  by (auto simp: upgrade_def Let_def commands_append split: prod.splits option.splits)

text \<open>
  C10. Whatever the resolved target is, the only commands a goroutine runs are
  \<^verbatim>\<open>go list -m -json module@latest\<close> and, after it,
  \<^verbatim>\<open>go install path@latest\<close>: the install names the package path with the literal
  suffix \<^verbatim>\<open>@latest\<close> and never the target, which appears only in the decision and
  in the printed line.
\<close>

theorem install_at_latest:
  assumes "ReadFile w f = Inr info"
  shows "commands (fst (task w latestGo f)) = []
         \<or> commands (fst (task w latestGo f))
             = [[''go'', ''list'', ''-m'', ''-json'', ModulePath (Main info) @ ''@latest'']]
         \<or> commands (fst (task w latestGo f))
             = [[''go'', ''list'', ''-m'', ''-json'', ModulePath (Main info) @ ''@latest''],
                [''go'', ''install'', Path info @ ''@latest'']]"
proof (cases "isSpecific (Version (Main info))")
  case True
  with assms show ?thesis by (simp add: task_pinned)
next
  case False
  let ?l = "listCmd (ModulePath (Main info))"
  show ?thesis
  proof (cases "snd (latest w f (ModulePath (Main info)))")
    case (Inr target)
    from task_resolved [OF assms False Inr, of latestGo]
      commands_upgrade [of w latestGo f info "[Exec ?l]" target]
    show ?thesis by (auto simp: listCmd_def installCmd_def)
  next
    case (Inl e)
    show ?thesis
    proof (cases "errors_Is e Canceled")
      case True
      from task_resolve_cancelled [OF assms False Inl True, of latestGo]
      show ?thesis by (simp add: listCmd_def)
    next
      case c: False
      from task_resolve_failed [OF assms False Inl c, of latestGo]
        commands_upgrade [of w latestGo f info "[Exec ?l, PrintError e]" "''?''"]
      show ?thesis by (auto simp: listCmd_def installCmd_def)
    qed
  qed
qed

theorem install_at_latest_witness:
  "commands (fst (task (exampleWorld (gopls ''go1.21.0'' ''v1.0.0'') (''v1.1.0'', None) ([], None))
                       False ''/gobin/gopls''))
     = [[''go'', ''list'', ''-m'', ''-json'', ''golang.org/x/tools/gopls@latest''],
        [''go'', ''install'', ''golang.org/x/tools/gopls@latest'']]"
proof -
  let ?info = "gopls ''go1.21.0'' ''v1.0.0''"
  let ?w = "exampleWorld ?info (''v1.1.0'', None) ([], None)"
  have r: "ReadFile ?w ''/gobin/gopls'' = Inr ?info"
    by (simp add: exampleWorld_def)
  have "\<not> isSpecific ''v1.0.0''"
    by code_simp
  then have t: "task ?w False ''/gobin/gopls''
     = ([Exec (listCmd ''golang.org/x/tools/gopls''),
         PrintUpgrade ''golang.org/x/tools/gopls'' ''v1.0.0'' ''v1.1.0'',
         Exec (installCmd ''golang.org/x/tools/gopls'')], None)"
    by (simp add: task_def latest_def upgrade_def exampleWorld_def gopls_def listCmd_def installCmd_def)
  from install_at_latest [OF r, of False] t show ?thesis
    by (simp add: listCmd_def installCmd_def)
qed

subsection \<open>The group and the run\<close>

lemma done_with_keeps: "group_err g = Some e \<Longrightarrow> group_err (done_with g r) = Some e"
  by (simp add: done_with_def split: option.splits)

lemma fold_done_with_keeps:
  "group_err g = Some e \<Longrightarrow> group_err (fold (\<lambda>f g. done_with g (r f)) order g) = Some e"
  by (induction order arbitrary: g) (simp_all add: done_with_keeps)

lemma fold_done_with:
  "group_err g = None \<Longrightarrow>
   group_err (fold (\<lambda>f g. done_with g (r f)) order g) =
     (case dropWhile (\<lambda>f. r f = None) order of [] \<Rightarrow> None | f # _ \<Rightarrow> r f)"
proof (induction order arbitrary: g)
  case Nil
  then show ?case by simp
next
  case (Cons a order)
  show ?case
  proof (cases "r a")
    case None
    with Cons show ?thesis by (simp add: done_with_def)
  next
    case (Some e)
    with Cons.prems have "group_err (done_with g (r a)) = Some e"
      by (simp add: done_with_def)
    from fold_done_with_keeps [OF this, of r order] Some show ?thesis by simp
  qed
qed

lemma sem_SetLimit: "sem (SetLimit zeroGroup n) = (if n < 0 then None else Some (nat n))"
  by (simp add: SetLimit_def zeroGroup_def)

lemma group_err_SetLimit: "group_err (SetLimit zeroGroup n) = None"
  by (simp add: SetLimit_def zeroGroup_def)

lemma installer_returns:
  assumes "gobin w \<noteq> []" and "listPrograms w (gobin w) = Inr progs" and "n \<noteq> 0 \<or> progs = []"
  shows "installer w order n latestGo =
           Some (map (task w latestGo) progs,
                 case dropWhile (\<lambda>f. snd (task w latestGo f) = None) order of
                   [] \<Rightarrow> None
                 | f # _ \<Rightarrow> snd (task w latestGo f))"
proof -
  have "\<not> (sem (SetLimit zeroGroup n) = Some 0 \<and> progs \<noteq> [])"
    using assms(3) by (auto simp: sem_SetLimit split: if_splits)
  moreover have "Wait (fold (\<lambda>f g. done_with g (snd (task w latestGo f))) order (SetLimit zeroGroup n))
      = (case dropWhile (\<lambda>f. snd (task w latestGo f) = None) order of
           [] \<Rightarrow> None | f # _ \<Rightarrow> snd (task w latestGo f))"
    unfolding Wait_def
    by (rule fold_done_with [OF group_err_SetLimit])
  ultimately show ?thesis
    using assms(1,2) by (simp add: installer_def Let_def)
qed

lemma first_error_None:
  "(case dropWhile (\<lambda>f. r f = None) order of [] \<Rightarrow> None | f # _ \<Rightarrow> r f) = None
     \<longleftrightarrow> (\<forall>f\<in>set order. r f = None)"
proof (cases "dropWhile (\<lambda>f. r f = None) order")
  case Nil
  then have "\<forall>f\<in>set order. r f = None"
    by simp
  moreover have "(case dropWhile (\<lambda>f. r f = None) order of [] \<Rightarrow> None | f # _ \<Rightarrow> r f) = None"
    unfolding Nil by simp
  ultimately show ?thesis
    by blast
next
  case (Cons a list)
  then have "r a \<noteq> None" "a \<in> set order"
    using hd_dropWhile [of "\<lambda>f. r f = None" order] set_dropWhileD [of a "\<lambda>f. r f = None" order]
    by auto
  with Cons show ?thesis by auto
qed

lemma first_error_Some:
  assumes "(case dropWhile (\<lambda>f. r f = None) order of [] \<Rightarrow> None | f # _ \<Rightarrow> r f) = Some x"
  shows "\<exists>pre f post. order = pre @ f # post \<and> (\<forall>g\<in>set pre. r g = None) \<and> r f = Some x"
proof (cases "dropWhile (\<lambda>f. r f = None) order")
  case Nil
  with assms show ?thesis by simp
next
  case (Cons a list)
  with assms have "r a = Some x" by simp
  moreover have "order = takeWhile (\<lambda>f. r f = None) order @ a # list"
    using Cons takeWhile_dropWhile_id [of "\<lambda>f. r f = None" order] by simp
  moreover have "\<forall>g\<in>set (takeWhile (\<lambda>f. r f = None) order). r g = None"
    using set_takeWhileD by fastforce
  ultimately show ?thesis by blast
qed

text \<open>
  C1, as the code has it. For every program whose latest-version query fails for a
  reason other than cancellation, the goroutine prints the error, takes \<^verbatim>\<open>?\<close> for
  the target and goes on to the decision with it: unless the current version is
  itself \<^verbatim>\<open>?\<close> (and no toolchain upgrade is due), it prints
  \<^verbatim>\<open>path current -> ?\<close> and runs \<^verbatim>\<open>go install path@latest\<close>. The failed query
  is not returned as an error (the goroutine returns an error only when that install
  fails), and the run still handles every program.
\<close>

theorem resolve_failed_then_install:
  assumes "ReadFile w f = Inr info" and "\<not> isSpecific (Version (Main info))"
    and "snd (latest w f (ModulePath (Main info))) = Inl e" and "\<not> errors_Is e Canceled"
  shows "fst (task w latestGo f) =
           (if Version (Main info) = ''?'' \<and> (\<not> latestGo \<or> GoVersion info = runtime_Version w)
            then [Exec (listCmd (ModulePath (Main info))), PrintError e,
                  PrintAlreadyLatest (Path info) (Version (Main info))]
            else [Exec (listCmd (ModulePath (Main info))), PrintError e,
                  PrintUpgrade (Path info) (Version (Main info)) ''?'',
                  Exec [''go'', ''install'', Path info @ ''@latest'']])
         \<and> (snd (task w latestGo f) = None \<longleftrightarrow>
              (Version (Main info) = ''?'' \<and> (\<not> latestGo \<or> GoVersion info = runtime_Version w))
              \<or> snd (CombinedOutput w f (installCmd (Path info))) = None)
         \<and> (gobin w \<noteq> [] \<and> listPrograms w (gobin w) = Inr progs \<and> n \<noteq> 0 \<longrightarrow>
              (\<exists>r. installer w order n latestGo = Some (map (task w latestGo) progs, r)))"
proof -
  let ?evs = "[Exec (listCmd (ModulePath (Main info))), PrintError e]"
  have t: "task w latestGo f = upgrade w latestGo f info ?evs ''?''"
    by (rule task_resolve_failed [OF assms])
  have run: "gobin w \<noteq> [] \<and> listPrograms w (gobin w) = Inr progs \<and> n \<noteq> 0 \<longrightarrow>
      (\<exists>r. installer w order n latestGo = Some (map (task w latestGo) progs, r))"
    using installer_returns [of w progs n order latestGo] by simp
  show ?thesis
  proof (cases "Version (Main info) = ''?'' \<and> (\<not> latestGo \<or> GoVersion info = runtime_Version w)")
    case True
    then have "upgrade w latestGo f info ?evs ''?''
        = (?evs @ [PrintAlreadyLatest (Path info) (Version (Main info))], None)"
      using upgrade_already_latest [of "''?''" info latestGo w f ?evs] by auto
    with t True run show ?thesis by simp
  next
    case False
    then have "''?'' \<noteq> Version (Main info) \<or> (latestGo \<and> runtime_Version w \<noteq> GoVersion info)"
      by auto
    from upgrade_install [OF this, of f ?evs] t False run
    show ?thesis by (simp add: installCmd_def split: option.splits)
  qed
qed

text \<open>
  The claim that no install is attempted after a failed query does not hold: here
  \<^verbatim>\<open>go list\<close> fails with exit status 1 and \<^verbatim>\<open>go install\<close> is run all the same.
\<close>

theorem resolve_failed_no_install_counterexample:
  "snd (latest (exampleWorld (gopls ''go1.21.0'' ''v1.0.0'')
                             (''no such module'', Some (ErrorString ''exit status 1'')) ([], None))
               ''/gobin/gopls'' ''golang.org/x/tools/gopls'')
     = Inl (WrapError (''go list (exit status 1):'' @ [CHR ''\<newline>''] @ ''no such module'')
                      (ErrorString ''exit status 1''))
   \<and> task (exampleWorld (gopls ''go1.21.0'' ''v1.0.0'')
                        (''no such module'', Some (ErrorString ''exit status 1'')) ([], None))
          False ''/gobin/gopls''
     = ([Exec [''go'', ''list'', ''-m'', ''-json'', ''golang.org/x/tools/gopls@latest''],
         PrintError (WrapError (''go list (exit status 1):'' @ [CHR ''\<newline>''] @ ''no such module'')
                               (ErrorString ''exit status 1'')),
         PrintUpgrade ''golang.org/x/tools/gopls'' ''v1.0.0'' ''?'',
         Exec [''go'', ''install'', ''golang.org/x/tools/gopls@latest'']],
        None)"
proof -
  have "\<not> isSpecific ''v1.0.0''"
    by code_simp
  then show ?thesis
    by (simp add: task_def latest_def upgrade_def exampleWorld_def gopls_def listCmd_def
        installCmd_def)
qed

theorem resolve_failed_then_install_witness:
  "fst (task (exampleWorld (gopls ''go1.21.0'' ''v1.0.0'')
                           (''no such module'', Some (ErrorString ''exit status 1'')) ([], None))
             False ''/gobin/gopls'')
     = [Exec (listCmd ''golang.org/x/tools/gopls''),
        PrintError (WrapError (''go list (exit status 1):'' @ [CHR ''\<newline>''] @ ''no such module'')
                              (ErrorString ''exit status 1'')),
        PrintUpgrade ''golang.org/x/tools/gopls'' ''v1.0.0'' ''?'',
        Exec [''go'', ''install'', ''golang.org/x/tools/gopls@latest'']]
   \<and> snd (task (exampleWorld (gopls ''go1.21.0'' ''v1.0.0'')
                             (''no such module'', Some (ErrorString ''exit status 1'')) ([], None))
               False ''/gobin/gopls'') = None
   \<and> (\<exists>r. installer (exampleWorld (gopls ''go1.21.0'' ''v1.0.0'')
                                   (''no such module'', Some (ErrorString ''exit status 1'')) ([], None))
                     [''/gobin/gopls''] 4 False
            = Some (map (task (exampleWorld (gopls ''go1.21.0'' ''v1.0.0'')
                                 (''no such module'', Some (ErrorString ''exit status 1'')) ([], None))
                              False)
                        [''/gobin/gopls''], r))"
proof -
  let ?info = "gopls ''go1.21.0'' ''v1.0.0''"
  let ?e = "WrapError (''go list (exit status 1):'' @ [CHR ''\<newline>''] @ ''no such module'')
                      (ErrorString ''exit status 1'')"
  let ?w = "exampleWorld ?info (''no such module'', Some (ErrorString ''exit status 1'')) ([], None)"
  have r: "ReadFile ?w ''/gobin/gopls'' = Inr ?info"
    by (simp add: exampleWorld_def)
  have "\<not> isSpecific ''v1.0.0''"
    by code_simp
  then have p: "\<not> isSpecific (Version (Main ?info))"
    by (simp add: gopls_def)
  have l: "snd (latest ?w ''/gobin/gopls'' (ModulePath (Main ?info))) = Inl ?e"
    by (simp add: latest_def exampleWorld_def gopls_def)
  have c: "\<not> errors_Is ?e Canceled"
    by simp
  have g: "gobin ?w \<noteq> []"
    by (simp add: gobin_def exampleWorld_def)
  have ps: "listPrograms ?w (gobin ?w) = Inr [''/gobin/gopls'']"
    by (simp add: listPrograms_def gobin_def exampleWorld_def isExecutable_def Perm_def)
  have i: "snd (CombinedOutput ?w ''/gobin/gopls'' (installCmd (Path ?info))) = None"
    by (simp add: exampleWorld_def gopls_def listCmd_def installCmd_def)
  from resolve_failed_then_install [OF r p l c, of False "[''/gobin/gopls'']" 4 "[''/gobin/gopls'']"]
    g ps i
  show ?thesis
    by (simp add: gopls_def)
qed


lemma task_install_error:
  assumes "ReadFile w f = Inr info"
    and "installCmd (Path info) \<in> set (commands (fst (task w latestGo f)))"
    and "snd (CombinedOutput w f (installCmd (Path info))) = Some e"
  shows "snd (task w latestGo f) =
           Some (ErrorString (''go install ('' @ Error e @ ''):'' @ [CHR ''\<newline>'']
                              @ fst (CombinedOutput w f (installCmd (Path info)))))"
proof -
  have no: "installCmd p \<noteq> listCmd m" for p m
    by (simp add: installCmd_def listCmd_def)
  have up: "snd (upgrade w latestGo f info evs target) =
              Some (ErrorString (''go install ('' @ Error e @ ''):'' @ [CHR ''\<newline>'']
                                 @ fst (CombinedOutput w f (installCmd (Path info)))))"
    if "task w latestGo f = upgrade w latestGo f info evs target"
      and "installCmd (Path info) \<notin> set (commands evs)" for evs target
  proof (cases "target \<noteq> Version (Main info) \<or> (latestGo \<and> runtime_Version w \<noteq> GoVersion info)")
    case True
    from upgrade_install [OF True, of f evs] assms(3) show ?thesis
      by simp
  next
    case False
    then have "upgrade w latestGo f info evs target
        = (evs @ [PrintAlreadyLatest (Path info) (Version (Main info))], None)"
      using upgrade_already_latest [of target info latestGo w f evs] by auto
    with that assms(2) show ?thesis
      by (simp add: commands_append)
  qed
  show ?thesis
  proof (cases "isSpecific (Version (Main info))")
    case True
    from task_pinned [OF assms(1) True, of latestGo] assms(2) show ?thesis
      by simp
  next
    case False
    show ?thesis
    proof (cases "snd (latest w f (ModulePath (Main info)))")
      case (Inr target)
      from task_resolved [OF assms(1) False Inr, of latestGo]
        up [of "[Exec (listCmd (ModulePath (Main info)))]" target] no
      show ?thesis by simp
    next
      case (Inl x)
      show ?thesis
      proof (cases "errors_Is x Canceled")
        case True
        from task_resolve_cancelled [OF assms(1) False Inl True, of latestGo] assms(2) no
        show ?thesis by simp
      next
        case c: False
        from task_resolve_failed [OF assms(1) False Inl c, of latestGo]
          up [of "[Exec (listCmd (ModulePath (Main info))), PrintError x]" "''?''"] no
        show ?thesis by simp
      qed
    qed
  qed
qed

lemma task_cancelled_returns_nil:
  assumes "resolveCancelled w f"
  shows "task w latestGo f
           = ([Exec (listCmd (ModulePath (Main (projr (ReadFile w f)))))], None)"
proof (cases "ReadFile w f")
  case (Inl e)
  with assms show ?thesis by (simp add: resolveCancelled_def)
next
  case (Inr info)
  with assms have p: "\<not> isSpecific (Version (Main info))"
    by (simp add: resolveCancelled_def)
  from assms Inr obtain e where e: "snd (latest w f (ModulePath (Main info))) = Inl e"
    and c: "errors_Is e Canceled"
    by (auto simp: resolveCancelled_def split: sum.splits)
  from task_resolve_cancelled [OF Inr p e c, of latestGo] Inr show ?thesis
    by simp
qed

lemma upgrade_result:
  "snd (upgrade w latestGo f info evs target) = None \<longleftrightarrow>
     (Version (Main info) = target \<and> (\<not> latestGo \<or> GoVersion info = runtime_Version w))
     \<or> snd (CombinedOutput w f (installCmd (Path info))) = None"
proof (cases "target \<noteq> Version (Main info) \<or> (latestGo \<and> runtime_Version w \<noteq> GoVersion info)")
  case True
  from upgrade_install [OF True, of f evs] True show ?thesis
    by (auto split: option.splits)
next
  case False
  then have "upgrade w latestGo f info evs target
      = (evs @ [PrintAlreadyLatest (Path info) (Version (Main info))], None)"
    using upgrade_already_latest [of target info latestGo w f evs] by auto
  with False show ?thesis
    by auto
qed

lemma upgrade_messages:
  "filter isErrorMessage (fst (upgrade w latestGo f info evs target)) = filter isErrorMessage evs"
  by (simp add: upgrade_def Let_def split: prod.splits option.splits)

lemma task_failed_query:
  assumes "ReadFile w f = Inr info" and "\<not> isSpecific (Version (Main info))"
    and "snd (latest w f (ModulePath (Main info))) = Inl e" and "\<not> errors_Is e Canceled"
  shows "filter isErrorMessage (fst (task w latestGo f)) = [PrintError e]"
    and "snd (task w latestGo f) = None \<longleftrightarrow>
           (Version (Main info) = ''?'' \<and> (\<not> latestGo \<or> GoVersion info = runtime_Version w))
           \<or> snd (CombinedOutput w f (installCmd (Path info))) = None"
proof -
  let ?evs = "[Exec (listCmd (ModulePath (Main info))), PrintError e]"
  have t: "task w latestGo f = upgrade w latestGo f info ?evs ''?''"
    by (rule task_resolve_failed [OF assms])
  show "filter isErrorMessage (fst (task w latestGo f)) = [PrintError e]"
    unfolding t upgrade_messages by simp
  show "snd (task w latestGo f) = None \<longleftrightarrow>
           (Version (Main info) = ''?'' \<and> (\<not> latestGo \<or> GoVersion info = runtime_Version w))
           \<or> snd (CombinedOutput w f (installCmd (Path info))) = None"
    unfolding t by (rule upgrade_result)
qed


lemma first_error_at:
  assumes "\<forall>g\<in>set pre. r g = None" and "r f = Some x"
  shows "(case dropWhile (\<lambda>f. r f = None) (pre @ f # post) of [] \<Rightarrow> None | f # _ \<Rightarrow> r f) = Some x"
proof -
  have "dropWhile (\<lambda>f. r f = None) (pre @ f # post) = dropWhile (\<lambda>f. r f = None) (f # post)"
    using assms(1) by (simp add: dropWhile_append2)
  with assms(2) show ?thesis
    by simp
qed

text \<open>
  C5, as the code has it. When the programs are found and the limit is not zero, every
  one of the \<open>N\<close> goroutines is run to its end, and what a goroutine prints, runs and
  returns depends on nothing but what the environment answers to that goroutine. A
  program whose build information cannot be read prints nothing and returns the
  error. Every other program prints exactly one status line (skip, already latest, or
  \<^verbatim>\<open>current -> target\<close> followed by the install), except that a program whose query
  ended with an error that is \<^verbatim>\<open>context.Canceled\<close> prints none; a query that
  failed with any other error, whatever made it fail, leaves the one status line.
  Of the errors that the goroutines return, the run keeps one, that of the first
  goroutine to finish with an error; whether a later goroutine failed does not show
  in the result.
\<close>

theorem one_status_line_per_program:
  assumes "gobin w \<noteq> []" and "listPrograms w (gobin w) = Inr progs" and "n \<noteq> 0"
  shows "installer w order n latestGo =
           Some (map (task w latestGo) progs,
                 case dropWhile (\<lambda>f. snd (task w latestGo f) = None) order of
                   [] \<Rightarrow> None
                 | f # _ \<Rightarrow> snd (task w latestGo f))
         \<and> (\<forall>f\<in>set progs.
               case ReadFile w f of
                 Inl e \<Rightarrow> task w latestGo f = ([], Some e)
               | Inr info \<Rightarrow>
                   length (filter isStatus (fst (task w latestGo f)))
                     = (if resolveCancelled w f then 0 else 1))
         \<and> (\<forall>f w'. ReadFile w' f = ReadFile w f \<and> CombinedOutput w' f = CombinedOutput w f
                     \<and> Unmarshal w' = Unmarshal w \<and> runtime_Version w' = runtime_Version w
                  \<longrightarrow> task w' latestGo f = task w latestGo f)
         \<and> (\<forall>pre f post x.
               order = pre @ f # post \<and> (\<forall>g\<in>set pre. snd (task w latestGo g) = None)
               \<and> snd (task w latestGo f) = Some x
               \<longrightarrow> installer w order n latestGo = Some (map (task w latestGo) progs, Some x))"
proof -
  let ?r = "\<lambda>order. case dropWhile (\<lambda>f. snd (task w latestGo f) = None) order of
              [] \<Rightarrow> None | f # _ \<Rightarrow> snd (task w latestGo f)"
  have run: "installer w order n latestGo = Some (map (task w latestGo) progs, ?r order)"
    for order
    using installer_returns [OF assms(1,2), of n order latestGo] assms(3) by simp
  have lines: "\<forall>f\<in>set progs.
      case ReadFile w f of
        Inl e \<Rightarrow> task w latestGo f = ([], Some e)
      | Inr info \<Rightarrow>
          length (filter isStatus (fst (task w latestGo f)))
            = (if resolveCancelled w f then 0 else 1)"
  proof
    fix f
    show "case ReadFile w f of
        Inl e \<Rightarrow> task w latestGo f = ([], Some e)
      | Inr info \<Rightarrow>
          length (filter isStatus (fst (task w latestGo f)))
            = (if resolveCancelled w f then 0 else 1)"
      by (rule task_status_lines)
  qed
  have local: "\<forall>f w'. ReadFile w' f = ReadFile w f \<and> CombinedOutput w' f = CombinedOutput w f
                     \<and> Unmarshal w' = Unmarshal w \<and> runtime_Version w' = runtime_Version w
                  \<longrightarrow> task w' latestGo f = task w latestGo f"
  proof (intro allI impI)
    fix f and w' :: World
    assume "ReadFile w' f = ReadFile w f \<and> CombinedOutput w' f = CombinedOutput w f
              \<and> Unmarshal w' = Unmarshal w \<and> runtime_Version w' = runtime_Version w"
    then show "task w' latestGo f = task w latestGo f"
      using task_local [of w' f w latestGo] by simp
  qed
  have first: "\<forall>pre f post x.
      order = pre @ f # post \<and> (\<forall>g\<in>set pre. snd (task w latestGo g) = None)
      \<and> snd (task w latestGo f) = Some x
      \<longrightarrow> installer w order n latestGo = Some (map (task w latestGo) progs, Some x)"
  proof (intro allI impI)
    fix pre f post x
    assume a: "order = pre @ f # post \<and> (\<forall>g\<in>set pre. snd (task w latestGo g) = None)
      \<and> snd (task w latestGo f) = Some x"
    then have "?r (pre @ f # post) = Some x"
      using first_error_at [of pre "\<lambda>f. snd (task w latestGo f)" f x post] by simp
    with a run [of order] show "installer w order n latestGo = Some (map (task w latestGo) progs, Some x)"
      by simp
  qed
  from run [of order] lines local first show ?thesis
    by (intro conjI)
qed

text \<open>
  C6, as the code has it. The run returns with a result for every goroutine, and its
  error is the error of the first goroutine, in the order of finishing, that returned
  one; it is nil exactly when no goroutine returned an error. The error of a
  latest-version query is suppressed, the goroutine returning nil, only when it is
  \<^verbatim>\<open>context.Canceled\<close> for \<^verbatim>\<open>errors.Is\<close>. A query that fails with any other
  error, whatever made it fail, is printed, and the goroutine goes on: it returns nil
  exactly when nothing is to be installed for the target \<^verbatim>\<open>?\<close> or the install
  succeeds. An install that ends with an error, whatever its cause, makes its
  goroutine return an error.
\<close>

theorem wait_returns_first_error:
  assumes "gobin w \<noteq> []" and "listPrograms w (gobin w) = Inr progs" and "n \<noteq> 0"
    and "mset order = mset progs"
  shows "\<exists>r. installer w order n latestGo = Some (map (task w latestGo) progs, r)
           \<and> (r = None \<longleftrightarrow> (\<forall>f\<in>set progs. snd (task w latestGo f) = None))
           \<and> (\<forall>x. r = Some x \<longrightarrow>
                 (\<exists>pre f post. order = pre @ f # post
                    \<and> (\<forall>g\<in>set pre. snd (task w latestGo g) = None)
                    \<and> snd (task w latestGo f) = Some x))
           \<and> (\<forall>f\<in>set progs. resolveCancelled w f \<longrightarrow> snd (task w latestGo f) = None)
           \<and> (\<forall>f\<in>set progs. \<forall>info e.
                 ReadFile w f = Inr info \<and> \<not> isSpecific (Version (Main info))
                 \<and> snd (latest w f (ModulePath (Main info))) = Inl e \<and> \<not> errors_Is e Canceled
                 \<longrightarrow> filter isErrorMessage (fst (task w latestGo f)) = [PrintError e]
                     \<and> (snd (task w latestGo f) = None \<longleftrightarrow>
                          (Version (Main info) = ''?''
                           \<and> (\<not> latestGo \<or> GoVersion info = runtime_Version w))
                          \<or> snd (CombinedOutput w f (installCmd (Path info))) = None))
           \<and> (\<forall>f\<in>set progs. \<forall>info.
                 ReadFile w f = Inr info
                 \<and> installCmd (Path info) \<in> set (commands (fst (task w latestGo f)))
                 \<and> snd (CombinedOutput w f (installCmd (Path info))) \<noteq> None
                 \<longrightarrow> snd (task w latestGo f) \<noteq> None)"
proof -
  let ?r = "case dropWhile (\<lambda>f. snd (task w latestGo f) = None) order of
              [] \<Rightarrow> None | f # _ \<Rightarrow> snd (task w latestGo f)"
  have same: "set order = set progs"
    using assms(4) by (rule mset_eq_setD)
  have run: "installer w order n latestGo = Some (map (task w latestGo) progs, ?r)"
    using installer_returns [OF assms(1,2), of n order latestGo] assms(3) by simp
  have none: "?r = None \<longleftrightarrow> (\<forall>f\<in>set progs. snd (task w latestGo f) = None)"
    using first_error_None [of "\<lambda>f. snd (task w latestGo f)" order] same by simp
  have some: "\<forall>x. ?r = Some x \<longrightarrow>
      (\<exists>pre f post. order = pre @ f # post
         \<and> (\<forall>g\<in>set pre. snd (task w latestGo g) = None)
         \<and> snd (task w latestGo f) = Some x)"
    using first_error_Some [of "\<lambda>f. snd (task w latestGo f)" order] by blast
  have cancelled: "\<forall>f\<in>set progs. resolveCancelled w f \<longrightarrow> snd (task w latestGo f) = None"
    by (simp add: task_cancelled_returns_nil)
  have other: "\<forall>f\<in>set progs. \<forall>info e.
      ReadFile w f = Inr info \<and> \<not> isSpecific (Version (Main info))
      \<and> snd (latest w f (ModulePath (Main info))) = Inl e \<and> \<not> errors_Is e Canceled
      \<longrightarrow> filter isErrorMessage (fst (task w latestGo f)) = [PrintError e]
          \<and> (snd (task w latestGo f) = None \<longleftrightarrow>
               (Version (Main info) = ''?''
                \<and> (\<not> latestGo \<or> GoVersion info = runtime_Version w))
               \<or> snd (CombinedOutput w f (installCmd (Path info))) = None)"
  proof (intro ballI allI impI)
    fix f info e
    assume "ReadFile w f = Inr info \<and> \<not> isSpecific (Version (Main info))
      \<and> snd (latest w f (ModulePath (Main info))) = Inl e \<and> \<not> errors_Is e Canceled"
    then have a: "ReadFile w f = Inr info" "\<not> isSpecific (Version (Main info))"
      "snd (latest w f (ModulePath (Main info))) = Inl e" "\<not> errors_Is e Canceled"
      by simp_all
    from task_failed_query [OF a, of latestGo]
    show "filter isErrorMessage (fst (task w latestGo f)) = [PrintError e]
          \<and> (snd (task w latestGo f) = None \<longleftrightarrow>
               (Version (Main info) = ''?''
                \<and> (\<not> latestGo \<or> GoVersion info = runtime_Version w))
               \<or> snd (CombinedOutput w f (installCmd (Path info))) = None)"
      by (intro conjI)
  qed
  have failed: "\<forall>f\<in>set progs. \<forall>info.
      ReadFile w f = Inr info
      \<and> installCmd (Path info) \<in> set (commands (fst (task w latestGo f)))
      \<and> snd (CombinedOutput w f (installCmd (Path info))) \<noteq> None
      \<longrightarrow> snd (task w latestGo f) \<noteq> None"
  proof (intro ballI allI impI)
    fix f info
    assume "ReadFile w f = Inr info
      \<and> installCmd (Path info) \<in> set (commands (fst (task w latestGo f)))
      \<and> snd (CombinedOutput w f (installCmd (Path info))) \<noteq> None"
    then obtain e where "ReadFile w f = Inr info"
      and "installCmd (Path info) \<in> set (commands (fst (task w latestGo f)))"
      and "snd (CombinedOutput w f (installCmd (Path info))) = Some e"
      by blast
    from task_install_error [OF this] show "snd (task w latestGo f) \<noteq> None"
      by simp
  qed
  show ?thesis
    using run none some cancelled other failed
    by (intro exI [of _ ?r] conjI)
qed

subsection \<open>The examples, evaluated\<close>

lemma twoPrograms_found:
  "gobin twoPrograms \<noteq> []"
  "listPrograms twoPrograms (gobin twoPrograms) = Inr [''/gobin/dlv'', ''/gobin/gopls'']"
  by (simp_all add: gobin_def listPrograms_def twoPrograms_def isExecutable_def Perm_def)

lemma twoPrograms_dlv:
  "task twoPrograms False ''/gobin/dlv'' =
     ([Exec [''go'', ''list'', ''-m'', ''-json'', ''github.com/go-delve/delve@latest''],
       PrintUpgrade ''github.com/go-delve/delve/cmd/dlv'' ''v1.21.0'' ''v1.22.0'',
       Exec [''go'', ''install'', ''github.com/go-delve/delve/cmd/dlv@latest'']],
      Some (ErrorString (''go install (exit status 1):'' @ [CHR ''\<newline>''] @ ''build failed'')))"
proof -
  have "\<not> isSpecific ''v1.21.0''"
    by code_simp
  then show ?thesis
    by (simp add: task_def latest_def upgrade_def twoPrograms_def dlv_def listCmd_def installCmd_def)
qed

lemma twoPrograms_gopls:
  "task twoPrograms False ''/gobin/gopls'' =
     ([Exec [''go'', ''list'', ''-m'', ''-json'', ''golang.org/x/tools/gopls@latest''],
       PrintUpgrade ''golang.org/x/tools/gopls'' ''v0.14.1'' ''v0.14.2'',
       Exec [''go'', ''install'', ''golang.org/x/tools/gopls@latest'']],
      None)"
proof -
  have "\<not> isSpecific ''v0.14.1''"
    by code_simp
  then show ?thesis
    by (simp add: task_def latest_def upgrade_def twoPrograms_def gopls_def listCmd_def installCmd_def)
qed

theorem one_status_line_per_program_witness:
  "installer twoPrograms [''/gobin/gopls'', ''/gobin/dlv''] 4 False
     = Some (map (task twoPrograms False) [''/gobin/dlv'', ''/gobin/gopls''],
             Some (ErrorString (''go install (exit status 1):'' @ [CHR ''\<newline>'']
                                @ ''build failed'')))
   \<and> length (filter isStatus (fst (task twoPrograms False ''/gobin/dlv''))) = 1
   \<and> length (filter isStatus (fst (task twoPrograms False ''/gobin/gopls''))) = 1"
proof -
  have n: "(4::int) \<noteq> 0"
    by simp
  have d: "ReadFile twoPrograms ''/gobin/dlv'' = Inr dlv"
    and g: "ReadFile twoPrograms ''/gobin/gopls'' = Inr (gopls ''go1.21.0'' ''v0.14.1'')"
    by (simp_all add: twoPrograms_def)
  have nd: "\<not> resolveCancelled twoPrograms ''/gobin/dlv''"
    and ng: "\<not> resolveCancelled twoPrograms ''/gobin/gopls''"
    by (simp_all add: resolveCancelled_def latest_def twoPrograms_def dlv_def gopls_def listCmd_def)
  note all = one_status_line_per_program
    [OF twoPrograms_found n, of "[''/gobin/gopls'', ''/gobin/dlv'']" False]
  from all have "installer twoPrograms [''/gobin/gopls'', ''/gobin/dlv''] 4 False
      = Some (map (task twoPrograms False) [''/gobin/dlv'', ''/gobin/gopls''],
              case dropWhile (\<lambda>f. snd (task twoPrograms False f) = None)
                     [''/gobin/gopls'', ''/gobin/dlv''] of
                [] \<Rightarrow> None
              | f # _ \<Rightarrow> snd (task twoPrograms False f))"
    by (rule conjunct1)
  moreover have "(case dropWhile (\<lambda>f. snd (task twoPrograms False f) = None)
                     [''/gobin/gopls'', ''/gobin/dlv''] of
                [] \<Rightarrow> None
              | f # _ \<Rightarrow> snd (task twoPrograms False f))
      = Some (ErrorString (''go install (exit status 1):'' @ [CHR ''\<newline>''] @ ''build failed''))"
    by (simp add: twoPrograms_dlv twoPrograms_gopls)
  ultimately have run: "installer twoPrograms [''/gobin/gopls'', ''/gobin/dlv''] 4 False
      = Some (map (task twoPrograms False) [''/gobin/dlv'', ''/gobin/gopls''],
              Some (ErrorString (''go install (exit status 1):'' @ [CHR ''\<newline>'']
                                 @ ''build failed'')))"
    by simp
  from all have "\<forall>f\<in>set [''/gobin/dlv'', ''/gobin/gopls''].
      case ReadFile twoPrograms f of
        Inl e \<Rightarrow> task twoPrograms False f = ([], Some e)
      | Inr info \<Rightarrow>
          length (filter isStatus (fst (task twoPrograms False f)))
            = (if resolveCancelled twoPrograms f then 0 else 1)"
    by (rule conjunct1 [OF conjunct2])
  with d g nd ng
  have "length (filter isStatus (fst (task twoPrograms False ''/gobin/dlv''))) = 1"
    and "length (filter isStatus (fst (task twoPrograms False ''/gobin/gopls''))) = 1"
    by simp_all
  with run show ?thesis
    by (intro conjI)
qed

text \<open>
  A program whose query ends with \<^verbatim>\<open>context.Canceled\<close> leaves no status line, so
  the claim of one outcome for every program fails as stated.
\<close>

theorem cancelled_query_no_status_counterexample:
  "resolveCancelled (exampleWorld (gopls ''go1.21.0'' ''v1.0.0'') ([], Some Canceled) ([], None))
                    ''/gobin/gopls''
   \<and> installer (exampleWorld (gopls ''go1.21.0'' ''v1.0.0'') ([], Some Canceled) ([], None))
             [''/gobin/gopls''] 4 False
     = Some ([([Exec [''go'', ''list'', ''-m'', ''-json'', ''golang.org/x/tools/gopls@latest'']],
               None)], None)
   \<and> filter isStatus
        (fst (task (exampleWorld (gopls ''go1.21.0'' ''v1.0.0'') ([], Some Canceled) ([], None))
                   False ''/gobin/gopls'')) = []"
proof -
  let ?w = "exampleWorld (gopls ''go1.21.0'' ''v1.0.0'') ([], Some Canceled) ([], None)"
  have "\<not> isSpecific ''v1.0.0''"
    by code_simp
  then have t: "task ?w False ''/gobin/gopls''
      = ([Exec [''go'', ''list'', ''-m'', ''-json'', ''golang.org/x/tools/gopls@latest'']], None)"
    by (simp add: task_def latest_def exampleWorld_def gopls_def listCmd_def)
  have g: "gobin ?w \<noteq> []"
    by (simp add: gobin_def exampleWorld_def)
  have ps: "listPrograms ?w (gobin ?w) = Inr [''/gobin/gopls'']"
    by (simp add: listPrograms_def gobin_def exampleWorld_def isExecutable_def Perm_def)
  have "installer ?w [''/gobin/gopls''] 4 False = Some ([task ?w False ''/gobin/gopls''], None)"
    using installer_returns [OF g ps, of 4 "[''/gobin/gopls'']" False] t by simp
  moreover from \<open>\<not> isSpecific ''v1.0.0''\<close> have "resolveCancelled ?w ''/gobin/gopls''"
    by (simp add: resolveCancelled_def latest_def exampleWorld_def gopls_def listCmd_def)
  ultimately show ?thesis
    using t by simp
qed

text \<open>
  A query that ends with an error other than \<^verbatim>\<open>context.Canceled\<close>, here the exit
  error of a killed command, is handled as a failed query: the error is printed, the
  status line with the target \<^verbatim>\<open>?\<close> follows and the install is run; its error,
  here \<^verbatim>\<open>context.Canceled\<close>, is returned.
\<close>

lemma killed_query_goes_on:
  "task (exampleWorld (gopls ''go1.21.0'' ''v1.0.0'') ([], Some (ErrorString ''signal: killed''))
                      ([], Some Canceled))
        False ''/gobin/gopls''
     = ([Exec [''go'', ''list'', ''-m'', ''-json'', ''golang.org/x/tools/gopls@latest''],
         PrintError (WrapError (''go list (signal: killed):'' @ [CHR ''\<newline>''])
                               (ErrorString ''signal: killed'')),
         PrintUpgrade ''golang.org/x/tools/gopls'' ''v1.0.0'' ''?'',
         Exec [''go'', ''install'', ''golang.org/x/tools/gopls@latest'']],
        Some (ErrorString (''go install (context canceled):'' @ [CHR ''\<newline>''])))"
proof -
  have "\<not> isSpecific ''v1.0.0''"
    by code_simp
  then show ?thesis
    by (simp add: task_def latest_def upgrade_def exampleWorld_def gopls_def listCmd_def
        installCmd_def)
qed

theorem wait_returns_first_error_witness:
  "\<exists>r. installer twoPrograms [''/gobin/gopls'', ''/gobin/dlv''] 4 False
          = Some (map (task twoPrograms False) [''/gobin/dlv'', ''/gobin/gopls''], r)
        \<and> r \<noteq> None"
proof -
  have n: "(4::int) \<noteq> 0"
    by simp
  have p: "mset [''/gobin/gopls'', ''/gobin/dlv''] = mset [''/gobin/dlv'', ''/gobin/gopls'']"
    by simp
  from wait_returns_first_error [OF twoPrograms_found n p, of False]
  obtain r where "installer twoPrograms [''/gobin/gopls'', ''/gobin/dlv''] 4 False
      = Some (map (task twoPrograms False) [''/gobin/dlv'', ''/gobin/gopls''], r)"
    and "r = None \<longleftrightarrow> (\<forall>f\<in>set [''/gobin/dlv'', ''/gobin/gopls'']. snd (task twoPrograms False f) = None)"
    by blast
  with twoPrograms_dlv show ?thesis
    by simp
qed

text \<open>
  A run in which the only failure is a cancelled install does not return success: the
  goroutine's error reaches \<^verbatim>\<open>eg.Wait\<close>.
\<close>

theorem cancelled_install_returned_counterexample:
  "snd (CombinedOutput
          (exampleWorld (gopls ''go1.21.0'' ''v1.0.0'') (''v1.1.0'', None) ([], Some Canceled))
          ''/gobin/gopls'' [''go'', ''install'', ''golang.org/x/tools/gopls@latest''])
     = Some Canceled
   \<and> installer (exampleWorld (gopls ''go1.21.0'' ''v1.0.0'') (''v1.1.0'', None) ([], Some Canceled))
             [''/gobin/gopls''] 4 False
     = Some ([([Exec [''go'', ''list'', ''-m'', ''-json'', ''golang.org/x/tools/gopls@latest''],
                PrintUpgrade ''golang.org/x/tools/gopls'' ''v1.0.0'' ''v1.1.0'',
                Exec [''go'', ''install'', ''golang.org/x/tools/gopls@latest'']],
               Some (ErrorString (''go install (context canceled):'' @ [CHR ''\<newline>''])))],
             Some (ErrorString (''go install (context canceled):'' @ [CHR ''\<newline>''])))"
proof -
  let ?w = "exampleWorld (gopls ''go1.21.0'' ''v1.0.0'') (''v1.1.0'', None) ([], Some Canceled)"
  have "\<not> isSpecific ''v1.0.0''"
    by code_simp
  then have t: "task ?w False ''/gobin/gopls''
      = ([Exec [''go'', ''list'', ''-m'', ''-json'', ''golang.org/x/tools/gopls@latest''],
          PrintUpgrade ''golang.org/x/tools/gopls'' ''v1.0.0'' ''v1.1.0'',
          Exec [''go'', ''install'', ''golang.org/x/tools/gopls@latest'']],
         Some (ErrorString (''go install (context canceled):'' @ [CHR ''\<newline>''])))"
    by (simp add: task_def latest_def upgrade_def exampleWorld_def gopls_def listCmd_def
        installCmd_def)
  have g: "gobin ?w \<noteq> []"
    by (simp add: gobin_def exampleWorld_def)
  have ps: "listPrograms ?w (gobin ?w) = Inr [''/gobin/gopls'']"
    by (simp add: listPrograms_def gobin_def exampleWorld_def isExecutable_def Perm_def)
  have c: "snd (CombinedOutput ?w ''/gobin/gopls''
                  [''go'', ''install'', ''golang.org/x/tools/gopls@latest'']) = Some Canceled"
    by (simp add: exampleWorld_def gopls_def listCmd_def)
  show ?thesis
    using installer_returns [OF g ps, of 4 "[''/gobin/gopls'']" False] t c by simp
qed

subsection \<open>The process\<close>








text \<open>
  C7, as the code has it. With at least one CPU: for \<^verbatim>\<open>-j 0\<close> the limit of the
  group is the number of CPUs; a negative value is passed to \<^verbatim>\<open>SetLimit\<close> as it is
  and the group then has no limit; a positive value is the limit. The limit is never
  zero.
\<close>

theorem effective_limit:
  assumes "0 < NumCPU w"
  shows "sem (SetLimit zeroGroup (limit w n)) =
           (if n = 0 then Some (nat (NumCPU w)) else if n < 0 then None else Some (nat n))
         \<and> sem (SetLimit zeroGroup (limit w n)) \<noteq> Some 0"
proof (cases "n = 0")
  case True
  with assms show ?thesis
    by (simp add: limit_def sem_SetLimit)
next
  case False
  then show ?thesis
    by (simp add: limit_def sem_SetLimit)
qed

theorem effective_limit_witness:
  "sem (SetLimit zeroGroup
         (limit (exampleWorld (gopls ''go1.21.0'' ''v1.0.0'') (''v1.1.0'', None) ([], None)) 0))
     = Some 4"
proof -
  let ?w = "exampleWorld (gopls ''go1.21.0'' ''v1.0.0'') (''v1.1.0'', None) ([], None)"
  have c: "0 < NumCPU ?w"
    by (simp add: exampleWorld_def)
  have "NumCPU ?w = 4"
    by (simp add: exampleWorld_def)
  with effective_limit [OF c, of 0] show ?thesis
    by simp
qed

text \<open>
  With 4 CPUs and \<^verbatim>\<open>-j -1\<close> the value handed to the group is -1 and the group has
  no limit: the limit is not the number of CPUs.
\<close>

theorem negative_limit_counterexample:
  "NumCPU (exampleWorld (gopls ''go1.21.0'' ''v1.0.0'') (''v1.1.0'', None) ([], None)) = 4
   \<and> limit (exampleWorld (gopls ''go1.21.0'' ''v1.0.0'') (''v1.1.0'', None) ([], None)) (- 1) = - 1
   \<and> sem (SetLimit zeroGroup
           (limit (exampleWorld (gopls ''go1.21.0'' ''v1.0.0'') (''v1.1.0'', None) ([], None)) (- 1)))
       = None"
  by (simp add: limit_def sem_SetLimit exampleWorld_def)

text \<open>
  C9, as the code has it. Let a program, not pinned, be upgraded on a first run to the
  resolved target. On a second run in which the program reports that target as its
  version, the query returns what it returned before, the target is itself not a
  pinned version and, when toolchain upgrades are requested, the program reports the
  running toolchain, the goroutine reports "already latest" and installs nothing.
\<close>

theorem second_run_already_latest:
  assumes "ReadFile w1 f = Inr info1" and "\<not> isSpecific (Version (Main info1))"
    and "snd (latest w1 f (ModulePath (Main info1))) = Inr target"
    and "task w1 latestGo f =
           ([Exec (listCmd (ModulePath (Main info1))),
             PrintUpgrade (Path info1) (Version (Main info1)) target,
             Exec (installCmd (Path info1))], None)"
    and "ReadFile w2 f = Inr info2"
    and "Path info2 = Path info1" and "ModulePath (Main info2) = ModulePath (Main info1)"
    and "Version (Main info2) = target"
    and "snd (latest w2 f (ModulePath (Main info1))) = snd (latest w1 f (ModulePath (Main info1)))"
    and "\<not> isSpecific target"
    and "latestGo \<longrightarrow> GoVersion info2 = runtime_Version w2"
  shows "task w2 latestGo f =
           ([Exec (listCmd (ModulePath (Main info1))), PrintAlreadyLatest (Path info1) target], None)"
proof -
  have p: "\<not> isSpecific (Version (Main info2))"
    using assms(8,10) by simp
  have l: "snd (latest w2 f (ModulePath (Main info2))) = Inr target"
    using assms(3,7,9) by simp
  have "task w2 latestGo f =
      upgrade w2 latestGo f info2 [Exec (listCmd (ModulePath (Main info2)))] target"
    by (rule task_resolved [OF assms(5) p l])
  also have "\<dots> = ([Exec (listCmd (ModulePath (Main info2)))]
                    @ [PrintAlreadyLatest (Path info2) (Version (Main info2))], None)"
    using assms(8,11) by (intro upgrade_already_latest) auto
  finally show ?thesis
    using assms(6,7,8) by simp
qed

theorem second_run_already_latest_witness:
  "task (exampleWorld (gopls ''go1.20.0'' ''v1.0.0'') (''v1.1.0'', None) ([], None))
        True ''/gobin/gopls''
     = ([Exec (listCmd ''golang.org/x/tools/gopls''),
         PrintUpgrade ''golang.org/x/tools/gopls'' ''v1.0.0'' ''v1.1.0'',
         Exec (installCmd ''golang.org/x/tools/gopls'')], None)
   \<and> task (exampleWorld (gopls ''go1.21.0'' ''v1.1.0'') (''v1.1.0'', None) ([], None))
          True ''/gobin/gopls''
     = ([Exec (listCmd ''golang.org/x/tools/gopls''),
         PrintAlreadyLatest ''golang.org/x/tools/gopls'' ''v1.1.0''], None)"
proof -
  let ?i1 = "gopls ''go1.20.0'' ''v1.0.0''" and ?i2 = "gopls ''go1.21.0'' ''v1.1.0''"
  let ?w1 = "exampleWorld ?i1 (''v1.1.0'', None) ([], None)"
  let ?w2 = "exampleWorld ?i2 (''v1.1.0'', None) ([], None)"
  let ?f = "''/gobin/gopls''"
  have v0: "\<not> isSpecific ''v1.0.0''" and v1: "\<not> isSpecific ''v1.1.0''"
    by code_simp+
  have r1: "ReadFile ?w1 ?f = Inr ?i1" and r2: "ReadFile ?w2 ?f = Inr ?i2"
    by (simp_all add: exampleWorld_def)
  have p1: "\<not> isSpecific (Version (Main ?i1))"
    using v0 by (simp add: gopls_def)
  have l1: "snd (latest ?w1 ?f (ModulePath (Main ?i1))) = Inr ''v1.1.0''"
    by (simp add: latest_def exampleWorld_def gopls_def)
  have t1: "task ?w1 True ?f =
      ([Exec (listCmd (ModulePath (Main ?i1))),
        PrintUpgrade (Path ?i1) (Version (Main ?i1)) ''v1.1.0'',
        Exec (installCmd (Path ?i1))], None)"
    using v0
    by (simp add: task_def latest_def upgrade_def exampleWorld_def gopls_def listCmd_def
        installCmd_def)
  have same: "Path ?i2 = Path ?i1" "ModulePath (Main ?i2) = ModulePath (Main ?i1)"
    "Version (Main ?i2) = ''v1.1.0''"
    by (simp_all add: gopls_def)
  have l2: "snd (latest ?w2 ?f (ModulePath (Main ?i1))) = snd (latest ?w1 ?f (ModulePath (Main ?i1)))"
    by (simp add: latest_def exampleWorld_def gopls_def)
  have g: "True \<longrightarrow> GoVersion ?i2 = runtime_Version ?w2"
    by (simp add: exampleWorld_def gopls_def)
  from second_run_already_latest [OF r1 p1 l1 t1 r2 same l2 v1 g] t1 show ?thesis
    by (simp add: gopls_def)
qed

text \<open>
  With \<^verbatim>\<open>-go\<close>, a program whose version was brought to the resolved target but
  which still reports another toolchain than the running one is installed again on
  the second run.
\<close>

theorem second_run_toolchain_counterexample:
  "task (exampleWorld (gopls ''go1.20.0'' ''v1.0.0'') (''v1.1.0'', None) ([], None))
        True ''/gobin/gopls''
     = ([Exec [''go'', ''list'', ''-m'', ''-json'', ''golang.org/x/tools/gopls@latest''],
         PrintUpgrade ''golang.org/x/tools/gopls'' ''v1.0.0'' ''v1.1.0'',
         Exec [''go'', ''install'', ''golang.org/x/tools/gopls@latest'']], None)
   \<and> task (exampleWorld (gopls ''go1.20.0'' ''v1.1.0'') (''v1.1.0'', None) ([], None))
          True ''/gobin/gopls''
     = ([Exec [''go'', ''list'', ''-m'', ''-json'', ''golang.org/x/tools/gopls@latest''],
         PrintUpgrade ''golang.org/x/tools/gopls'' ''v1.1.0'' ''v1.1.0'',
         Exec [''go'', ''install'', ''golang.org/x/tools/gopls@latest'']], None)"
proof -
  have "\<not> isSpecific ''v1.0.0''" and "\<not> isSpecific ''v1.1.0''"
    by code_simp+
  then show ?thesis
    by (simp add: task_def latest_def upgrade_def exampleWorld_def gopls_def listCmd_def
        installCmd_def)
qed

end
